theory Spec2Isabelle
  imports Complex_Main
begin

section \<open>Python values used by the pipeline\<close>

text \<open>
  The repository is Python. Optional attributes are \<open>option\<close> values (\<open>None\<close> is
  Python's \<open>None\<close>), text is \<open>string\<close> (ASCII; one \<open>char\<close> per character), integers
  are \<open>int\<close>. Python floats are modelled by exact rationals: the weights of the scoring
  rules (3.0, 2.0, 1.5, 1.0, 0.5) are dyadic, so every sum the scoring engine forms is
  exact in binary floating point as well; the rounding error of the divisions in the
  aggregator is not modelled, and neither are NaN and the infinities.
\<close>

datatype py_error = KeyError | AttributeError | TypeError | IndexingError

subsection \<open>Truthiness\<close>

text \<open>\<open>if x:\<close> on an optional string or float.\<close>

definition truthy_str :: "string option \<Rightarrow> bool" where
  "truthy_str v = (case v of None \<Rightarrow> False | Some s \<Rightarrow> s \<noteq> [])"

definition truthy_float :: "rat option \<Rightarrow> bool" where
  "truthy_float v = (case v of None \<Rightarrow> False | Some x \<Rightarrow> x \<noteq> 0)"

text \<open>\<open>a or b\<close> on optional values: \<open>a\<close> when it is truthy, else \<open>b\<close>.\<close>

definition or_str :: "string option \<Rightarrow> string option \<Rightarrow> string option" where
  "or_str a b = (if truthy_str a then a else b)"

definition or_float :: "rat option \<Rightarrow> rat option \<Rightarrow> rat option" where
  "or_float a b = (if truthy_float a then a else b)"

subsection \<open>Strings\<close>

definition upper_letters :: string where
  "upper_letters = ''ABCDEFGHIJKLMNOPQRSTUVWXYZ''"

definition lower_letters :: string where
  "lower_letters = ''abcdefghijklmnopqrstuvwxyz''"

text \<open>\<open>str.lower()\<close> on ASCII text.\<close>

definition lower_char :: "char \<Rightarrow> char" where
  "lower_char c = (case map_of (zip upper_letters lower_letters) c of None \<Rightarrow> c | Some d \<Rightarrow> d)"

definition py_lower :: "string \<Rightarrow> string" where
  "py_lower s = map lower_char s"

fun py_startswith :: "string \<Rightarrow> string \<Rightarrow> bool" where
  "py_startswith s [] = True"
| "py_startswith [] (p # ps) = False"
| "py_startswith (c # cs) (p # ps) = (c = p \<and> py_startswith cs ps)"

text \<open>\<open>sub in s\<close> on strings: \<open>sub\<close> occurs in \<open>s\<close> as a contiguous run.\<close>

fun py_contains :: "string \<Rightarrow> string \<Rightarrow> bool" where
  "py_contains sub [] = (sub = [])"
| "py_contains sub (c # cs) = (py_startswith (c # cs) sub \<or> py_contains sub cs)"

definition digit_chars :: string where
  "digit_chars = ''0123456789''"

fun str_nat :: "nat \<Rightarrow> string" where
  "str_nat n = (if n < 10 then [digit_chars ! n] else str_nat (n div 10) @ [digit_chars ! (n mod 10)])"

text \<open>\<open>str(n)\<close>, as an f-string formats an integer.\<close>

definition str_int :: "int \<Rightarrow> string" where
  "str_int n = (if n < 0 then CHR ''-'' # str_nat (nat (- n)) else str_nat (nat n))"

subsection \<open>Rounding\<close>

text \<open>
  \<open>round(x, ndigits)\<close>: the nearest multiple of \<open>10 ^ -ndigits\<close>, a tie going to the even
  neighbour.
\<close>

definition round_half_even :: "rat \<Rightarrow> int" where
  "round_half_even q =
     (let f = \<lfloor>q\<rfloor>; d = q - of_int f
      in if d < 1 / 2 then f else if 1 / 2 < d then f + 1 else if even f then f else f + 1)"

definition py_round :: "rat \<Rightarrow> nat \<Rightarrow> rat" where
  "py_round x ndigits = of_int (round_half_even (x * 10 ^ ndigits)) / 10 ^ ndigits"

section \<open>Node model (risk_engine.py)\<close>

datatype RiskLevel = LOW | MEDIUM | HIGH | UNKNOWN

record VPNNode =
  ip :: string
  port :: "int option"
  country :: "string option"
  region :: "string option"
  city :: "string option"
  asn :: "string option"
  isp :: "string option"
  first_seen :: "string option"
  last_seen :: "string option"
  latitude :: "rat option"
  longitude :: "rat option"
  risk_score :: rat
  risk_level :: RiskLevel
  risk_factors :: "string list"

text \<open>The dataclass constructor with its defaults: \<open>VPNNode(ip=...)\<close>.\<close>

definition new_node :: "string \<Rightarrow> VPNNode" where
  "new_node a =
     \<lparr>ip = a, port = None, country = None, region = None, city = None, asn = None,
      isp = None, first_seen = None, last_seen = None, latitude = None, longitude = None,
      risk_score = 0, risk_level = UNKNOWN, risk_factors = []\<rparr>"

section \<open>Risk scoring engine (risk_engine.py)\<close>

text \<open>
  The configuration dictionary handed to \<open>RiskEngine.__init__\<close>: every key may be
  missing (\<open>config.get(key, default)\<close>).
\<close>

record risk_config =
  cfg_high_risk_ports :: "int list option"
  cfg_medium_risk_ports :: "int list option"
  cfg_datacenter_asn_keywords :: "string list option"
  cfg_thresholds :: "(string \<times> rat) list option"

record RiskEngine =
  high_risk_ports :: "int list"
  medium_risk_ports :: "int list"
  datacenter_keywords :: "string list"
  thresholds :: "(string \<times> rat) list"

definition get_or :: "'a option \<Rightarrow> 'a \<Rightarrow> 'a" where
  "get_or v d = (case v of None \<Rightarrow> d | Some x \<Rightarrow> x)"

definition risk_engine_init :: "risk_config \<Rightarrow> RiskEngine" where
  "risk_engine_init config =
     \<lparr>high_risk_ports = get_or (cfg_high_risk_ports config) [],
      medium_risk_ports = get_or (cfg_medium_risk_ports config) [],
      datacenter_keywords = map py_lower (get_or (cfg_datacenter_asn_keywords config) []),
      thresholds = get_or (cfg_thresholds config)
                     [(''high'', 7), (''medium'', 4), (''low'', 0)]\<rparr>"

text \<open>The \<open>risk_engine\<close> section of \<open>get_default_config\<close> (utils.py).\<close>

definition default_risk_config :: risk_config where
  "default_risk_config =
     \<lparr>cfg_high_risk_ports = Some [22, 23, 3389, 4444, 5555, 8080, 8888],
      cfg_medium_risk_ports = Some [80, 443, 8000, 8443],
      cfg_datacenter_asn_keywords =
        Some [''hosting'', ''datacenter'', ''cloud'', ''virtual'', ''vpn'', ''proxy''],
      cfg_thresholds = Some [(''high'', 7), (''medium'', 4), (''low'', 0)]\<rparr>"

definition default_engine :: RiskEngine where
  "default_engine = risk_engine_init default_risk_config"

text \<open>
  The scoring rules work on the running pair \<open>(risk_score, risk_factors)\<close>; each
  definition is one block of \<open>assess_node\<close>, in the order of the source.
\<close>

type_synonym tally = "rat \<times> string list"

definition any_keyword_in :: "string list \<Rightarrow> string \<Rightarrow> bool" where
  "any_keyword_in kws s = list_ex (\<lambda>keyword. py_contains keyword s) kws"

definition port_rule :: "RiskEngine \<Rightarrow> VPNNode \<Rightarrow> tally \<Rightarrow> tally" where
  "port_rule e node t =
     (case port node of
        None \<Rightarrow> t
      | Some p \<Rightarrow>
          if p = 0 then t
          else if p \<in> set (high_risk_ports e)
            then (fst t + 3, snd t @ [''High-risk port ('' @ str_int p @ '')''])
          else if p \<in> set (medium_risk_ports e)
            then (fst t + 3 / 2, snd t @ [''Medium-risk port ('' @ str_int p @ '')''])
          else t)"

definition isp_rule :: "RiskEngine \<Rightarrow> VPNNode \<Rightarrow> tally \<Rightarrow> tally" where
  "isp_rule e node t =
     (case isp node of
        None \<Rightarrow> t
      | Some s \<Rightarrow>
          if s \<noteq> [] \<and> any_keyword_in (datacenter_keywords e) (py_lower s)
          then (fst t + 2, snd t @ [''Datacenter/hosting provider''])
          else t)"

definition asn_rule :: "RiskEngine \<Rightarrow> VPNNode \<Rightarrow> tally \<Rightarrow> tally" where
  "asn_rule e node t =
     (case asn node of
        None \<Rightarrow> t
      | Some s \<Rightarrow>
          if s \<noteq> [] \<and> any_keyword_in (datacenter_keywords e) (py_lower s)
          then (fst t + 3 / 2, snd t @ [''Datacenter ASN pattern''])
          else t)"

definition vpn_rule :: "VPNNode \<Rightarrow> tally \<Rightarrow> tally" where
  "vpn_rule node t =
     (case isp node of
        None \<Rightarrow> t
      | Some s \<Rightarrow>
          if s \<noteq> [] \<and> py_contains ''vpn'' (py_lower s)
          then (fst t + 1, snd t @ [''Known VPN provider''])
          else t)"

definition missing_fields :: "VPNNode \<Rightarrow> nat" where
  "missing_fields node =
     (if \<not> truthy_str (country node) then 1 else 0)
     + (if \<not> truthy_str (isp node) then 1 else 0)
     + (if \<not> truthy_str (asn node) then 1 else 0)"

definition metadata_rule :: "VPNNode \<Rightarrow> tally \<Rightarrow> tally" where
  "metadata_rule node t =
     (if 2 \<le> missing_fields node
      then (fst t + 1 / 2, snd t @ [''Insufficient metadata''])
      else t)"

definition tally_of :: "RiskEngine \<Rightarrow> VPNNode \<Rightarrow> tally" where
  "tally_of e node =
     metadata_rule node (vpn_rule node (asn_rule e node (isp_rule e node (port_rule e node (0, [])))))"

text \<open>
  The threshold chain: \<open>thresholds['high']\<close> is read first and \<open>thresholds['medium']\<close>
  only when the score is below it; a missing key raises \<open>KeyError\<close>.
\<close>

definition level_of :: "(string \<times> rat) list \<Rightarrow> rat \<Rightarrow> py_error + RiskLevel" where
  "level_of th s =
     (case map_of th ''high'' of
        None \<Rightarrow> Inl KeyError
      | Some h \<Rightarrow>
          if h \<le> s then Inr HIGH
          else (case map_of th ''medium'' of
                  None \<Rightarrow> Inl KeyError
                | Some m \<Rightarrow> if m \<le> s then Inr MEDIUM else if 0 < s then Inr LOW else Inr UNKNOWN))"

definition assess_node :: "RiskEngine \<Rightarrow> VPNNode \<Rightarrow> py_error + VPNNode" where
  "assess_node e node =
     (let t = tally_of e node
      in case level_of (thresholds e) (fst t) of
           Inl err \<Rightarrow> Inl err
         | Inr lvl \<Rightarrow>
             Inr (node\<lparr>risk_score := py_round (fst t) 2, risk_level := lvl, risk_factors := snd t\<rparr>))"

text \<open>\<open>assess_nodes\<close>: the list comprehension stops at the first node that raises.\<close>

fun assess_nodes :: "RiskEngine \<Rightarrow> VPNNode list \<Rightarrow> py_error + VPNNode list" where
  "assess_nodes e [] = Inr []"
| "assess_nodes e (node # rest) =
     (case assess_node e node of
        Inl err \<Rightarrow> Inl err
      | Inr node' \<Rightarrow> (case assess_nodes e rest of Inl err \<Rightarrow> Inl err | Inr rest' \<Rightarrow> Inr (node' # rest')))"

section \<open>Aggregator (risk_engine.py, get_statistics)\<close>





section \<open>Geo enrichment engine (geo_analyzer.py)\<close>

subsection \<open>Reading the first octet\<close>

text \<open>
  \<open>int(node.ip.split('.')[0])\<close>. \<open>int\<close> on ASCII text accepts surrounding whitespace
  (space, tab, line feed, vertical tab, form feed, carriage return), one sign, and
  decimal digits with single underscores between them; anything else raises
  \<open>ValueError\<close> (here \<open>None\<close>). The interpreter's limit on the length of such a literal
  is not modelled.
\<close>

definition is_int_space :: "char \<Rightarrow> bool" where
  "is_int_space c = (c \<in> set [CHR 0x09, CHR 0x0A, CHR 0x0B, CHR 0x0C, CHR 0x0D, CHR '' ''])"

definition int_strip :: "string \<Rightarrow> string" where
  "int_strip s = rev (dropWhile is_int_space (rev (dropWhile is_int_space s)))"

text \<open>
  \<open>str.strip()\<close> takes more characters for whitespace than \<open>int\<close> does: the four
  separators 0x1C to 0x1F as well.
\<close>

definition is_space :: "char \<Rightarrow> bool" where
  "is_space c = (c \<in> set [CHR 0x09, CHR 0x0A, CHR 0x0B, CHR 0x0C, CHR 0x0D,
                            CHR 0x1C, CHR 0x1D, CHR 0x1E, CHR 0x1F, CHR '' ''])"

definition py_strip :: "string \<Rightarrow> string" where
  "py_strip s = rev (dropWhile is_space (rev (dropWhile is_space s)))"

definition digit_value :: "char \<Rightarrow> nat option" where
  "digit_value c = map_of (zip digit_chars [0, 1, 2, 3, 4, 5, 6, 7, 8, 9]) c"

fun int_digits :: "bool \<Rightarrow> nat \<Rightarrow> string \<Rightarrow> nat option" where
  "int_digits prev acc [] = (if prev then Some acc else None)"
| "int_digits prev acc (c # cs) =
     (if c = CHR ''_''
      then (if prev \<and> cs \<noteq> [] then int_digits False acc cs else None)
      else (case digit_value c of
              None \<Rightarrow> None
            | Some d \<Rightarrow> int_digits True (acc * 10 + d) cs))"

definition py_int :: "string \<Rightarrow> int option" where
  "py_int s =
     (case int_strip s of
        [] \<Rightarrow> None
      | c # cs \<Rightarrow>
          if c = CHR ''-'' then map_option (\<lambda>n. - int n) (int_digits False 0 cs)
          else if c = CHR ''+'' then map_option int (int_digits False 0 cs)
          else map_option int (int_digits False 0 (c # cs)))"

text \<open>\<open>s.split('.')[0]\<close>: the text before the first dot.\<close>

definition first_segment :: "string \<Rightarrow> string" where
  "first_segment s = takeWhile (\<lambda>c. c \<noteq> CHR ''.'') s"

subsection \<open>The fallback heuristic\<close>

definition coordinates :: "(string \<times> rat \<times> rat) list" where
  "coordinates =
     [(''US'', 37.0902, -95.7129), (''GB'', 55.3781, -3.4360), (''DE'', 51.1657, 10.4515),
      (''FR'', 46.2276, 2.2137), (''NL'', 52.1326, 5.2913), (''CA'', 56.1304, -106.3468),
      (''AU'', -25.2744, 133.7751), (''JP'', 36.2048, 138.2529), (''CN'', 35.8617, 104.1954),
      (''IN'', 20.5937, 78.9629), (''BR'', -14.2350, -51.9253), (''RU'', 61.5240, 105.3188),
      (''SG'', 1.3521, 103.8198), (''EU'', 50.8503, 4.3517)]"

text \<open>\<open>coordinates.get(country_code, (0, 0))\<close>; the key may be \<open>None\<close>.\<close>

definition get_country_coordinates :: "string option \<Rightarrow> rat \<times> rat" where
  "get_country_coordinates country_code =
     (case country_code of
        None \<Rightarrow> (0, 0)
      | Some c \<Rightarrow> (case map_of coordinates c of None \<Rightarrow> (0, 0) | Some xy \<Rightarrow> xy))"

definition country_guess :: "int \<Rightarrow> string" where
  "country_guess first_octet =
     (if first_octet < 50 then ''US''
      else if first_octet < 100 then ''EU''
      else if first_octet < 150 then ''CN''
      else ''Unknown'')"

text \<open>
  \<open>_apply_fallback_data\<close>. The only statement of the \<open>try\<close> block that can raise is the
  first, before anything is assigned: the handler then returns the node as it was.
\<close>

definition apply_fallback_data :: "VPNNode \<Rightarrow> VPNNode" where
  "apply_fallback_data node =
     (case py_int (first_segment (ip node)) of
        None \<Rightarrow> node
      | Some first_octet \<Rightarrow>
          (let node1 = (if \<not> truthy_str (country node)
                        then node\<lparr>country := Some (country_guess first_octet)\<rparr>
                        else node)
           in if \<not> truthy_float (latitude node1) \<or> \<not> truthy_float (longitude node1)
              then (let coords = get_country_coordinates (country node1)
                    in node1\<lparr>latitude := Some (fst coords), longitude := Some (snd coords)\<rparr>)
              else node1))"

subsection \<open>The providers\<close>

text \<open>
  What a lookup function hands back: the dictionary built from a good answer, or
  \<open>None\<close> (no credentials, a status other than 200 or \<open>success\<close>, or an exception,
  which the function catches).
\<close>

record ip_data =
  d_country :: "string option"
  d_region :: "string option"
  d_city :: "string option"
  d_latitude :: "rat option"
  d_longitude :: "rat option"
  d_asn :: "string option"
  d_isp :: "string option"

text \<open>
  The outside world: for the request number \<open>k\<close> (the analyzer's \<open>requests_count\<close> once
  the request is counted) about an address, what the lookup function returns. Any
  deterministic provider behaviour, including one that changes from call to call, is
  such a function.
\<close>

type_synonym provider = "nat \<Rightarrow> string \<Rightarrow> ip_data option"

record network =
  ipinfo_io :: provider
  ip_api_com :: provider

text \<open>
  The analyzer's own state. \<open>last_request_time\<close> and the sleep of the rate limiter are
  wall-clock time and are left out; \<open>requests_count\<close> counts the external requests,
  since \<open>_respect_rate_limit\<close> runs right before each of them and nowhere else.
\<close>

record GeoAnalyzer =
  ipinfo_token :: string
  requests_count :: nat

definition respect_rate_limit :: "GeoAnalyzer \<Rightarrow> GeoAnalyzer" where
  "respect_rate_limit a = a\<lparr>requests_count := requests_count a + 1\<rparr>"

definition lookup_ip_ipinfo :: "network \<Rightarrow> GeoAnalyzer \<Rightarrow> string \<Rightarrow> ip_data option \<times> GeoAnalyzer" where
  "lookup_ip_ipinfo net a addr =
     (if ipinfo_token a = [] then (None, a)
      else (let a' = respect_rate_limit a in (ipinfo_io net (requests_count a') addr, a')))"

definition lookup_ip_free_api :: "network \<Rightarrow> GeoAnalyzer \<Rightarrow> string \<Rightarrow> ip_data option \<times> GeoAnalyzer" where
  "lookup_ip_free_api net a addr =
     (let a' = respect_rate_limit a in (ip_api_com net (requests_count a') addr, a'))"

subsection \<open>Enrichment\<close>

text \<open>
  The source updates a node in place and returns it; the model returns the updated
  node. A list that holds the same node object twice is not modelled.
\<close>

text \<open>The guard of \<open>enrich_node\<close>: \<open>node.latitude and node.longitude and node.country\<close>.\<close>

definition has_all_fields :: "VPNNode \<Rightarrow> bool" where
  "has_all_fields node =
     (truthy_float (latitude node) \<and> truthy_float (longitude node) \<and> truthy_str (country node))"

definition merge_ip_data :: "VPNNode \<Rightarrow> ip_data \<Rightarrow> VPNNode" where
  "merge_ip_data node d =
     node\<lparr>country := or_str (country node) (d_country d),
          region := or_str (region node) (d_region d),
          city := or_str (city node) (d_city d),
          latitude := or_float (latitude node) (d_latitude d),
          longitude := or_float (longitude node) (d_longitude d),
          asn := or_str (asn node) (d_asn d),
          isp := or_str (isp node) (d_isp d)\<rparr>"

definition enrich_node :: "network \<Rightarrow> GeoAnalyzer \<Rightarrow> VPNNode \<Rightarrow> bool \<Rightarrow> VPNNode \<times> GeoAnalyzer" where
  "enrich_node net a node use_api =
     (if has_all_fields node then (node, a)
      else if \<not> use_api then (apply_fallback_data node, a)
      else
        (let (d1, a1) = (if ipinfo_token a \<noteq> [] then lookup_ip_ipinfo net a (ip node) else (None, a));
             (d2, a2) = (if d1 = None then lookup_ip_free_api net a1 (ip node) else (d1, a1))
         in case d2 of
              Some d \<Rightarrow> (merge_ip_data node d, a2)
            | None \<Rightarrow> (apply_fallback_data node, a2)))"

text \<open>
  The loop of \<open>enrich_nodes\<close>, on the analyzer, the list built so far and
  \<open>api_calls_made\<close>.
\<close>

fun enrich_loop ::
  "network \<Rightarrow> bool \<Rightarrow> int \<Rightarrow> VPNNode list \<Rightarrow> GeoAnalyzer \<times> VPNNode list \<times> int
     \<Rightarrow> GeoAnalyzer \<times> VPNNode list \<times> int" where
  "enrich_loop net use_api max_api_calls [] st = st"
| "enrich_loop net use_api max_api_calls (node # rest) (a, enriched_nodes, api_calls_made) =
     (let should_use_api = (use_api \<and> api_calls_made < max_api_calls);
          (enriched_node, a') = enrich_node net a node should_use_api
      in enrich_loop net use_api max_api_calls rest
           (a', enriched_nodes @ [enriched_node],
            (if should_use_api \<and> truthy_float (latitude enriched_node)
             then api_calls_made + 1 else api_calls_made)))"

definition enrich_nodes ::
  "network \<Rightarrow> GeoAnalyzer \<Rightarrow> VPNNode list \<Rightarrow> bool \<Rightarrow> int \<Rightarrow> VPNNode list \<times> GeoAnalyzer" where
  "enrich_nodes net a nodes use_api max_api_calls =
     (let (a', enriched_nodes, api_calls_made) = enrich_loop net use_api max_api_calls nodes (a, [], 0)
      in (enriched_nodes, a'))"

text \<open>
  \<open>GeoAnalyzer.__init__\<close>: the token comes from the configuration (empty in the default
  configuration), no request has been made.
\<close>

definition geo_analyzer_init :: "string \<Rightarrow> GeoAnalyzer" where
  "geo_analyzer_init token = \<lparr>ipinfo_token = token, requests_count = 0\<rparr>"

section \<open>Record validator and cleaner (utils.py, data_processor.py)\<close>

subsection \<open>validate_ip\<close>

text \<open>
  \<open>validate_ip\<close> asks the standard library's \<open>ipaddress.ip_address\<close> whether it accepts
  the value. The definitions below follow that parser on text, step by step: an IPv4
  literal is four dot-separated octets (decimal digits, at most three, no leading
  zero, at most 255); an IPv6 literal may carry a scope after \<open>%\<close> (non-empty, without
  another \<open>%\<close>), then has colon-separated groups of one to four hexadecimal digits, at
  most one \<open>::\<close>, and possibly an IPv4 literal in the last place. An integer is accepted
  when it is a 32-bit or 128-bit address value.
\<close>

text \<open>\<open>s.split(sep)\<close> for a one-character separator.\<close>

fun split_on :: "char \<Rightarrow> string \<Rightarrow> string list" where
  "split_on sep [] = [[]]"
| "split_on sep (x # xs) =
     (if x = sep then [] # split_on sep xs
      else (case split_on sep xs of [] \<Rightarrow> [[x]] | p # ps \<Rightarrow> (x # p) # ps))"

definition is_digit :: "char \<Rightarrow> bool" where
  "is_digit c = (c \<in> set digit_chars)"

definition is_hex_digit :: "char \<Rightarrow> bool" where
  "is_hex_digit c = (c \<in> set ''0123456789abcdefABCDEF'')"

definition decimal_value :: "string \<Rightarrow> nat" where
  "decimal_value s = foldl (\<lambda>n c. n * 10 + (case digit_value c of None \<Rightarrow> 0 | Some d \<Rightarrow> d)) 0 s"

text \<open>\<open>_parse_octet\<close> succeeds.\<close>

definition parse_octet_ok :: "string \<Rightarrow> bool" where
  "parse_octet_ok octet_str =
     (case octet_str of
        [] \<Rightarrow> False
      | c # cs \<Rightarrow>
          list_all is_digit octet_str \<and> length octet_str \<le> 3 \<and>
          (octet_str = ''0'' \<or> c \<noteq> CHR ''0'') \<and> decimal_value octet_str \<le> 255)"

text \<open>\<open>IPv4Address(text)\<close> succeeds.\<close>

definition ipv4_ok :: "string \<Rightarrow> bool" where
  "ipv4_ok addr_str =
     (CHR ''/'' \<notin> set addr_str \<and> addr_str \<noteq> [] \<and>
      (let octets = split_on CHR ''.'' addr_str
       in length octets = 4 \<and> list_all parse_octet_ok octets))"

text \<open>\<open>_parse_hextet\<close> succeeds: \<open>int('', 16)\<close> raises for the empty text.\<close>

definition parse_hextet_ok :: "string \<Rightarrow> bool" where
  "parse_hextet_ok hextet_str =
     (list_all is_hex_digit hextet_str \<and> length hextet_str \<le> 4 \<and> hextet_str \<noteq> [])"

text \<open>
  \<open>_split_scope_id\<close>: the address part, or \<open>None\<close> when the scope is empty or holds
  another \<open>%\<close>.
\<close>

definition split_scope_id :: "string \<Rightarrow> string option" where
  "split_scope_id ip_str =
     (let addr = takeWhile (\<lambda>c. c \<noteq> CHR ''%'') ip_str;
          rest = dropWhile (\<lambda>c. c \<noteq> CHR ''%'') ip_str
      in case rest of
           [] \<Rightarrow> Some addr
         | sep # scope_id \<Rightarrow>
             if scope_id = [] \<or> CHR ''%'' \<in> set scope_id then None else Some addr)"

text \<open>
  The indices \<open>1 .. len(parts) - 2\<close> whose part is empty: the candidates for \<open>::\<close>.
\<close>

definition skip_indices :: "string list \<Rightarrow> nat list" where
  "skip_indices parts = filter (\<lambda>i. parts ! i = []) [1 ..< length parts - 1]"

text \<open>
  \<open>IPv6Address._ip_int_from_string\<close> succeeds. An IPv4 literal in the last place is
  replaced by its two groups, which are always well formed; only that matters here, so
  the model puts \<open>0\<close> for each.
\<close>

definition ipv6_parts_ok :: "string list \<Rightarrow> bool" where
  "ipv6_parts_ok parts =
     (length parts \<le> 9 \<and>
      (case skip_indices parts of
         [] \<Rightarrow> length parts = 8 \<and> list_all parse_hextet_ok parts
       | [skip_index] \<Rightarrow>
           (let hi0 = skip_index;
                lo0 = length parts - skip_index - 1;
                parts_hi = (if parts ! 0 = [] then hi0 - 1 else hi0);
                parts_lo = (if last parts = [] then lo0 - 1 else lo0)
            in (parts_hi = 0 \<or> parts ! 0 \<noteq> []) \<and>
               (parts_lo = 0 \<or> last parts \<noteq> []) \<and>
               parts_hi + parts_lo \<le> 7 \<and>
               list_all parse_hextet_ok (take parts_hi parts) \<and>
               list_all parse_hextet_ok (drop (length parts - parts_lo) parts))
       | _ \<Rightarrow> False))"

definition ipv6_text_ok :: "string \<Rightarrow> bool" where
  "ipv6_text_ok ip_str =
     (ip_str \<noteq> [] \<and>
      (let parts = split_on CHR '':'' ip_str
       in 3 \<le> length parts \<and>
          (if CHR ''.'' \<in> set (last parts)
           then ipv4_ok (last parts) \<and> ipv6_parts_ok (butlast parts @ [''0'', ''0''])
           else ipv6_parts_ok parts)))"

text \<open>\<open>IPv6Address(text)\<close> succeeds.\<close>

definition ipv6_ok :: "string \<Rightarrow> bool" where
  "ipv6_ok addr_str =
     (CHR ''/'' \<notin> set addr_str \<and>
      (case split_scope_id addr_str of None \<Rightarrow> False | Some addr \<Rightarrow> ipv6_text_ok addr))"

definition ip_address_ok :: "string \<Rightarrow> bool" where
  "ip_address_ok s = (ipv4_ok s \<or> ipv6_ok s)"

subsection \<open>Tables\<close>

text \<open>
  A pandas \<open>DataFrame\<close>, column by column. A cell is missing (\<open>None\<close> or NaN), a text,
  an integer or a float; numbers are kept by value. A column has a label, its cells,
  and a flag telling whether its dtype is \<open>object\<close> (the dtype of text and mixed
  columns) or numeric. Labels may repeat, as they may in pandas. Row labels (the index)
  are not modelled.
\<close>

datatype cell = NullC | StrC string | IntC int | FltC rat

record column =
  col_name :: string
  is_object :: bool
  cells :: "cell list"

type_synonym dataframe = "column list"

text \<open>\<open>validate_ip(value)\<close> on a cell of the \<open>ip\<close> column (utils.py).\<close>

definition validate_ip :: "cell \<Rightarrow> bool" where
  "validate_ip v =
     (case v of
        StrC s \<Rightarrow> ip_address_ok s
      | IntC n \<Rightarrow> 0 \<le> n \<and> n < 2 ^ 128
      | FltC x \<Rightarrow> False
      | NullC \<Rightarrow> False)"

definition labels :: "dataframe \<Rightarrow> string list" where
  "labels df = map col_name df"

definition count_label :: "dataframe \<Rightarrow> string \<Rightarrow> nat" where
  "count_label df name = length (filter (\<lambda>c. col_name c = name) df)"

text \<open>The cells of the first column with this label (\<open>df[name]\<close> when the label is unique).\<close>

definition column_cells :: "dataframe \<Rightarrow> string \<Rightarrow> cell list" where
  "column_cells df name = (case find (\<lambda>c. col_name c = name) df of None \<Rightarrow> [] | Some c \<Rightarrow> cells c)"

text \<open>
  The number of rows, read off the first column (0 for a frame with no column), and
  the condition that all columns have that many cells.
\<close>

definition nrows :: "dataframe \<Rightarrow> nat" where
  "nrows df = (case df of [] \<Rightarrow> 0 | c # rest \<Rightarrow> length (cells c))"

definition rectangular :: "dataframe \<Rightarrow> bool" where
  "rectangular df = list_all (\<lambda>c. length (cells c) = nrows df) df"

text \<open>\<open>df[mask]\<close>: the rows whose mask entry is true.\<close>

definition keep_cells :: "bool list \<Rightarrow> 'a list \<Rightarrow> 'a list" where
  "keep_cells flags xs = map snd (filter fst (zip flags xs))"

definition keep_rows :: "bool list \<Rightarrow> dataframe \<Rightarrow> dataframe" where
  "keep_rows flags df = map (\<lambda>c. c\<lparr>cells := keep_cells flags (cells c)\<rparr>) df"

text \<open>The mask of \<open>drop_duplicates(keep='first')\<close>: true at the first occurrence of a value.\<close>

fun first_mask :: "'a list \<Rightarrow> 'a list \<Rightarrow> bool list" where
  "first_mask seen [] = []"
| "first_mask seen (x # xs) = (x \<notin> set seen) # first_mask (x # seen) xs"

subsection \<open>The steps of clean_dataframe\<close>

text \<open>Sequencing of steps that may raise.\<close>

definition and_then :: "py_error + 'a \<Rightarrow> ('a \<Rightarrow> py_error + 'b) \<Rightarrow> py_error + 'b" where
  "and_then r f = (case r of Inl err \<Rightarrow> Inl err | Inr x \<Rightarrow> f x)"

text \<open>
  \<open>if 'ip' in df.columns: df = df[df['ip'].apply(validate_ip)]\<close>.
  \<^item> One column \<open>ip\<close> with at least one row: \<open>apply\<close> gives a boolean mask and the rows
    whose address is valid are kept.
  \<^item> One column \<open>ip\<close> and no row: \<open>apply\<close> gives an empty series that is not boolean,
    so \<open>df[...]\<close> selects columns by label, none of them: the result has no column.
  \<^item> A repeated \<open>ip\<close> label: \<open>df['ip']\<close> is a frame and \<open>apply\<close> works per column,
    giving one \<open>False\<close> per column. Indexing with it raises \<open>IndexingError\<close> when the
    frame has rows, and returns the frame when it has none.
\<close>

definition drop_invalid_ips :: "dataframe \<Rightarrow> py_error + dataframe" where
  "drop_invalid_ips df =
     (if ''ip'' \<in> set (labels df)
      then (if 1 < count_label df ''ip''
            then (if nrows df = 0 then Inr df else Inl IndexingError)
            else if column_cells df ''ip'' = [] then Inr []
            else Inr (keep_rows (map validate_ip (column_cells df ''ip'')) df))
      else Inr df)"

text \<open>
  \<open>df.drop_duplicates(subset=['ip'], keep='first')\<close>. An empty frame (no column, or
  no row) is returned as it is, before \<open>subset\<close> is looked at. Otherwise: \<open>KeyError\<close>
  when there is no column \<open>ip\<close>, and the rows with the first occurrence of each
  address when there is one (the step before has made sure it is the only one).
\<close>

definition drop_duplicate_ips :: "dataframe \<Rightarrow> py_error + dataframe" where
  "drop_duplicate_ips df =
     (if nrows df = 0 then Inr df
      else if ''ip'' \<in> set (labels df)
      then Inr (keep_rows (first_mask [] (column_cells df ''ip'')) df)
      else Inl KeyError)"

definition column_mapping :: "(string \<times> string) list" where
  "column_mapping =
     [(''IP'', ''ip''), (''Port'', ''port''), (''Country'', ''country''), (''ASN'', ''asn''),
      (''ISP'', ''isp''), (''First Seen'', ''first_seen''), (''Last Seen'', ''last_seen''),
      (''Latitude'', ''latitude''), (''Longitude'', ''longitude'')]"

text \<open>\<open>df.rename(columns={old_name: new_name})\<close>.\<close>

definition rename_column :: "string \<Rightarrow> string \<Rightarrow> dataframe \<Rightarrow> dataframe" where
  "rename_column old_name new_name df =
     map (\<lambda>c. if col_name c = old_name then c\<lparr>col_name := new_name\<rparr> else c) df"

text \<open>The loop over \<open>column_mapping.items()\<close>.\<close>

fun rename_loop :: "(string \<times> string) list \<Rightarrow> dataframe \<Rightarrow> dataframe" where
  "rename_loop [] df = df"
| "rename_loop ((old_name, new_name) # rest) df =
     rename_loop rest
       (if old_name \<in> set (labels df) then rename_column old_name new_name df else df)"

definition standardize_names :: "dataframe \<Rightarrow> dataframe" where
  "standardize_names df = rename_loop column_mapping df"

text \<open>
  \<open>pd.to_numeric(column, errors='coerce')\<close> on one cell. How the library reads a
  number out of text is a parameter \<open>num\<close> of the model (\<open>None\<close>: not a number).
\<close>

definition to_numeric :: "(string \<Rightarrow> rat option) \<Rightarrow> cell \<Rightarrow> cell" where
  "to_numeric num v =
     (case v of
        StrC s \<Rightarrow> (case num s of None \<Rightarrow> NullC | Some x \<Rightarrow> FltC x)
      | IntC n \<Rightarrow> IntC n
      | FltC x \<Rightarrow> FltC x
      | NullC \<Rightarrow> NullC)"

text \<open>
  \<open>.fillna(0).astype(int)\<close> on one cell (a float is cut towards zero), then
  \<open>df.loc[df['port'] == 0, 'port'] = None\<close>. Values beyond 64 bits are not modelled.
\<close>

definition astype_int :: "cell \<Rightarrow> int" where
  "astype_int v =
     (case v of
        NullC \<Rightarrow> 0
      | IntC n \<Rightarrow> n
      | FltC x \<Rightarrow> (if 0 \<le> x then \<lfloor>x\<rfloor> else \<lceil>x\<rceil>)
      | StrC s \<Rightarrow> 0)"

definition port_cell :: "(string \<Rightarrow> rat option) \<Rightarrow> cell \<Rightarrow> cell" where
  "port_cell num v = (let n = astype_int (to_numeric num v) in if n = 0 then NullC else IntC n)"

text \<open>
  Assigning to \<open>df[name]\<close>: the column with this label gets new cells and a dtype.
\<close>

definition update_column :: "string \<Rightarrow> bool \<Rightarrow> (cell \<Rightarrow> cell) \<Rightarrow> column \<Rightarrow> column" where
  "update_column name obj f c =
     (if col_name c = name then c\<lparr>is_object := obj, cells := map f (cells c)\<rparr> else c)"

definition set_column :: "string \<Rightarrow> bool \<Rightarrow> (cell \<Rightarrow> cell) \<Rightarrow> dataframe \<Rightarrow> dataframe" where
  "set_column name obj f df = map (update_column name obj f) df"

text \<open>
  \<open>if 'port' in df.columns: ...\<close>. With a repeated label \<open>df['port']\<close> is a frame and
  \<open>pd.to_numeric\<close> raises \<open>TypeError\<close>.
\<close>

definition convert_port :: "(string \<Rightarrow> rat option) \<Rightarrow> dataframe \<Rightarrow> py_error + dataframe" where
  "convert_port num df =
     (if ''port'' \<in> set (labels df)
      then (if 1 < count_label df ''port'' then Inl TypeError
            else Inr (set_column ''port'' False (port_cell num) df))
      else Inr df)"

text \<open>One round of \<open>for col in ['latitude', 'longitude']\<close>.\<close>

definition convert_float :: "(string \<Rightarrow> rat option) \<Rightarrow> string \<Rightarrow> dataframe \<Rightarrow> py_error + dataframe" where
  "convert_float num name df =
     (if name \<in> set (labels df)
      then (if 1 < count_label df name then Inl TypeError
            else Inr (set_column name False (to_numeric num) df))
      else Inr df)"

text \<open>
  \<open>.str.strip()\<close> on a cell of an object column: a text is trimmed, anything else
  becomes missing.
\<close>

definition strip_cell :: "cell \<Rightarrow> cell" where
  "strip_cell v = (case v of StrC s \<Rightarrow> StrC (py_strip s) | IntC n \<Rightarrow> NullC | FltC x \<Rightarrow> NullC | NullC \<Rightarrow> NullC)"

definition is_text :: "cell \<Rightarrow> bool" where
  "is_text v = (case v of StrC s \<Rightarrow> True | IntC n \<Rightarrow> False | FltC x \<Rightarrow> False | NullC \<Rightarrow> False)"

text \<open>
  The \<open>.str\<close> accessor refuses an object column that holds numbers and no text
  (\<open>AttributeError\<close>); it takes text, mixed and all-missing columns.
\<close>

definition str_accessor_ok :: "cell list \<Rightarrow> bool" where
  "str_accessor_ok vs = (list_ex is_text vs \<or> list_all (\<lambda>v. v = NullC) vs)"

text \<open>
  The loop over \<open>df.select_dtypes(include=['object']).columns\<close>: the labels of the
  object columns, in order. With a label that some other column shares, \<open>df[col]\<close> is a
  frame, which has no \<open>dtype\<close>: \<open>AttributeError\<close>.
\<close>

fun strip_loop :: "string list \<Rightarrow> dataframe \<Rightarrow> py_error + dataframe" where
  "strip_loop [] df = Inr df"
| "strip_loop (col # rest) df =
     (if 1 < count_label df col then Inl AttributeError
      else if str_accessor_ok (column_cells df col)
        then strip_loop rest (set_column col True strip_cell df)
      else Inl AttributeError)"

definition strip_strings :: "dataframe \<Rightarrow> py_error + dataframe" where
  "strip_strings df = strip_loop (labels (filter is_object df)) df"

text \<open>\<open>DataProcessor.clean_dataframe\<close>, its steps in the order of the source.\<close>

definition clean_dataframe :: "(string \<Rightarrow> rat option) \<Rightarrow> dataframe \<Rightarrow> py_error + dataframe" where
  "clean_dataframe num df =
     and_then (drop_invalid_ips df) (\<lambda>df1.
     and_then (drop_duplicate_ips df1) (\<lambda>df2.
     and_then (convert_port num (standardize_names df2)) (\<lambda>df3.
     and_then (convert_float num ''latitude'' df3) (\<lambda>df4.
     and_then (convert_float num ''longitude'' df4) (\<lambda>df5.
     strip_strings df5)))))"

section \<open>Inputs used in the examples\<close>

text \<open>A network on which every lookup fails, and one where the keyless provider answers.\<close>

definition no_network :: network where
  "no_network = \<lparr>ipinfo_io = (\<lambda>k addr. None), ip_api_com = (\<lambda>k addr. None)\<rparr>"

definition answering :: "ip_data \<Rightarrow> network" where
  "answering d = \<lparr>ipinfo_io = (\<lambda>k addr. None), ip_api_com = (\<lambda>k addr. Some d)\<rparr>"

definition amsterdam :: ip_data where
  "amsterdam =
     \<lparr>d_country = Some ''NL'', d_region = Some ''North Holland'', d_city = Some ''Amsterdam'',
      d_latitude = Some 52.37, d_longitude = Some 4.89, d_asn = Some ''AS1103'',
      d_isp = Some ''SURF''\<rparr>"

text \<open>The node of the scoring example: only \<open>port\<close> and \<open>isp\<close> are populated.\<close>

definition ex22 :: "string \<Rightarrow> VPNNode" where
  "ex22 a = (new_node a)\<lparr>port := Some 22, isp := Some ''Acme Hosting Cloud''\<rparr>"

text \<open>A node with a medium-risk port and a hosting provider, nothing else.\<close>

definition ex80 :: VPNNode where
  "ex80 = (new_node ''198.51.100.7'')\<lparr>port := Some 80, isp := Some ''Acme Hosting''\<rparr>"

text \<open>Nodes with all three geo fields set: one on the equator line of the model, one not.\<close>

definition berlin :: VPNNode where
  "berlin = (new_node ''10.0.0.1'')\<lparr>country := Some ''DE'', latitude := Some 0, longitude := Some 13.4\<rparr>"

definition all_there :: VPNNode where
  "all_there = (new_node ''10.0.0.1'')\<lparr>country := Some ''DE'', latitude := Some 52.52, longitude := Some 13.4\<rparr>"




text \<open>
  The invariant of the running score and factor list: the score is a multiple of one
  half, positive exactly when a factor has been recorded.
\<close>

definition half_ok :: "tally \<Rightarrow> bool" where
  "half_ok t = (\<exists>k::nat. fst t = of_nat k / 2 \<and> (0 < k) = (snd t \<noteq> []))"

text \<open>
  A reader of numbers for the examples: decimal integers, as \<open>int\<close> reads them.
\<close>

definition int_reader :: "string \<Rightarrow> rat option" where
  "int_reader s = map_option of_int (py_int s)"

text \<open>
  Two link-local addresses with a scope; the second has a space after the scope, which
  the address parser takes as part of the scope.
\<close>

definition scoped :: dataframe where
  "scoped =
     [\<lparr>col_name = ''ip'', is_object = True,
       cells = [StrC ''fe80::1%eth0'', StrC ''fe80::1%eth0 '']\<rparr>,
      \<lparr>col_name = ''country'', is_object = True, cells = [StrC ''US'', StrC ''DE'']\<rparr>]"

definition scoped_once :: dataframe where
  "scoped_once =
     [\<lparr>col_name = ''ip'', is_object = True,
       cells = [StrC ''fe80::1%eth0'', StrC ''fe80::1%eth0'']\<rparr>,
      \<lparr>col_name = ''country'', is_object = True, cells = [StrC ''US'', StrC ''DE'']\<rparr>]"

definition scoped_twice :: dataframe where
  "scoped_twice =
     [\<lparr>col_name = ''ip'', is_object = True, cells = [StrC ''fe80::1%eth0'']\<rparr>,
      \<lparr>col_name = ''country'', is_object = True, cells = [StrC ''US'']\<rparr>]"

text \<open>A table whose columns use the alternate spellings only.\<close>

definition spelled :: dataframe where
  "spelled =
     [\<lparr>col_name = ''IP'', is_object = True,
       cells = [StrC ''1.2.3.4'', StrC ''not-an-ip'', StrC ''1.2.3.4'']\<rparr>,
      \<lparr>col_name = ''Country'', is_object = True, cells = [StrC ''US'', StrC ''DE'', StrC ''FR'']\<rparr>]"

section \<open>Properties of the scoring engine\<close>

lemmas engine_defs = default_engine_def risk_engine_init_def default_risk_config_def get_or_def

lemmas rule_defs = tally_of_def port_rule_def isp_rule_def asn_rule_def vpn_rule_def
  metadata_rule_def missing_fields_def truthy_str_def any_keyword_in_def

lemmas str_defs = py_lower_def lower_char_def upper_letters_def lower_letters_def str_int_def
  digit_chars_def

subsection \<open>Every score is a multiple of one half\<close>

text \<open>
  Rounding to two decimals leaves a multiple of one half alone, and every rule adds
  such a multiple together with one factor.
\<close>

lemma py_round_half: "py_round (of_nat k / 2) 2 = of_nat k / 2"
proof -
  have "(of_nat k / 2 :: rat) * 10 ^ 2 = of_int (50 * int k)" by simp
  then have "round_half_even ((of_nat k / 2 :: rat) * 10 ^ 2) = 50 * int k"
    unfolding round_half_even_def Let_def by (simp only: floor_of_int) simp
  then show ?thesis by (simp add: py_round_def)
qed

lemma half_ok_add:
  assumes "half_ok t" "0 < j"
  shows "half_ok (fst t + of_nat j / 2, snd t @ [f])"
proof -
  from assms obtain k :: nat where k: "fst t = of_nat k / 2" by (auto simp: half_ok_def)
  have "fst t + of_nat j / 2 = (of_nat (k + j) / 2 :: rat)" using k by (simp add: add_divide_distrib)
  with assms(2) show ?thesis unfolding half_ok_def by (intro exI[of _ "k + j"]) simp
qed

lemma half_ok_start: "half_ok (0, [])"
  unfolding half_ok_def by (intro exI[of _ 0]) simp

lemma half_ok_port: "half_ok t \<Longrightarrow> half_ok (port_rule e node t)"
  using half_ok_add[of t 6] half_ok_add[of t 3]
  by (auto simp: port_rule_def split: option.splits)

lemma half_ok_isp: "half_ok t \<Longrightarrow> half_ok (isp_rule e node t)"
  using half_ok_add[of t 4] by (auto simp: isp_rule_def split: option.splits)

lemma half_ok_asn: "half_ok t \<Longrightarrow> half_ok (asn_rule e node t)"
  using half_ok_add[of t 3] by (auto simp: asn_rule_def split: option.splits)

lemma half_ok_vpn: "half_ok t \<Longrightarrow> half_ok (vpn_rule node t)"
  using half_ok_add[of t 2] by (auto simp: vpn_rule_def split: option.splits)

lemma half_ok_metadata: "half_ok t \<Longrightarrow> half_ok (metadata_rule node t)"
  using half_ok_add[of t 1] by (auto simp: metadata_rule_def)

lemma half_ok_tally: "half_ok (tally_of e node)"
  unfolding tally_of_def
  by (intro half_ok_metadata half_ok_vpn half_ok_asn half_ok_isp half_ok_port half_ok_start)

lemma round_tally: "py_round (fst (tally_of e node)) 2 = fst (tally_of e node)"
proof -
  from half_ok_tally[of e node] obtain k :: nat where "fst (tally_of e node) = of_nat k / 2"
    unfolding half_ok_def by blast
  then show ?thesis by (simp only: py_round_half)
qed

lemma tally_pos: "(snd (tally_of e node) \<noteq> []) = (0 < fst (tally_of e node))"
  using half_ok_tally[of e node] by (auto simp: half_ok_def)

lemma thresholds_default: "thresholds default_engine = [(''high'', 7), (''medium'', 4), (''low'', 0)]"
  by (simp add: engine_defs)


lemma tally_ex22:
  "tally_of default_engine (ex22 a) =
     (11 / 2, [''High-risk port (22)'', ''Datacenter/hosting provider'', ''Insufficient metadata''])"
  by (simp add: ex22_def new_node_def engine_defs rule_defs str_defs)

lemma tally_ex80:
  "tally_of default_engine ex80 =
     (4, [''Medium-risk port (80)'', ''Datacenter/hosting provider'', ''Insufficient metadata''])"
  by (simp add: ex80_def new_node_def engine_defs rule_defs str_defs)

lemma assess_ex80:
  "assess_node default_engine ex80 =
     Inr (ex80\<lparr>risk_score := 4, risk_level := MEDIUM,
            risk_factors := [''Medium-risk port (80)'', ''Datacenter/hosting provider'',
                             ''Insufficient metadata'']\<rparr>)"
  using round_tally[of default_engine ex80]
  by (simp add: assess_node_def tally_ex80 thresholds_default level_of_def)

subsection \<open>The scoring example\<close>

text \<open>
  C2, as the code computes it. Under the default configuration a node whose only
  populated optional fields are \<open>port = 22\<close> and \<open>isp = "Acme Hosting Cloud"\<close> has
  neither country nor ASN, so the sparse-metadata rule fires as well: the score is
  5.50, the level Medium, and the factors are the high-risk port, the hosting provider
  and the insufficient metadata, in this order.
\<close>

theorem assess_port22_hosting_cloud:
  "assess_node default_engine (ex22 a) =
     Inr ((ex22 a)\<lparr>risk_score := 11 / 2, risk_level := MEDIUM,
            risk_factors := [''High-risk port (22)'', ''Datacenter/hosting provider'',
                             ''Insufficient metadata'']\<rparr>)"
  using round_tally[of default_engine "ex22 a"]
  by (simp add: assess_node_def tally_ex22 thresholds_default level_of_def)

text \<open>
  C2 as the specification states it (score 5.00 and the two-element factor list) is not
  what scoring returns for that node.
\<close>

theorem assess_port22_not_five:
  "assess_node default_engine (ex22 ''203.0.113.7'') \<noteq>
     Inr ((ex22 ''203.0.113.7'')\<lparr>risk_score := 5, risk_level := MEDIUM,
            risk_factors := [''High-risk port (22)'', ''Datacenter/hosting provider'']\<rparr>)"
proof
  assume "assess_node default_engine (ex22 ''203.0.113.7'') =
     Inr ((ex22 ''203.0.113.7'')\<lparr>risk_score := 5, risk_level := MEDIUM,
            risk_factors := [''High-risk port (22)'', ''Datacenter/hosting provider'']\<rparr>)"
  then have "map_sum id risk_factors (assess_node default_engine (ex22 ''203.0.113.7'')) =
     Inr [''High-risk port (22)'', ''Datacenter/hosting provider'']" by simp
  then show False
    by (simp add: assess_node_def tally_ex22 thresholds_default level_of_def)
qed

subsection \<open>Classification\<close>


subsection \<open>Factors and score\<close>

text \<open>
  C6. Whatever the engine's configuration, when scoring returns a node its factor list
  is non-empty exactly when its score is positive; a score of 0 comes with no factor.
\<close>

theorem factors_iff_positive_score:
  "assess_node e node = Inr node' \<Longrightarrow> (risk_factors node' \<noteq> []) = (0 < risk_score node')"
  using round_tally[of e node] tally_pos[of e node]
  by (auto simp: assess_node_def Let_def split: sum.splits)

theorem factors_iff_positive_score_witness:
  "assess_node default_engine ex80 =
     Inr (ex80\<lparr>risk_score := 4, risk_level := MEDIUM,
            risk_factors := [''Medium-risk port (80)'', ''Datacenter/hosting provider'',
                             ''Insufficient metadata'']\<rparr>) \<and>
   ([''Medium-risk port (80)'', ''Datacenter/hosting provider'', ''Insufficient metadata''] \<noteq> [])
     = (0 < (4::rat))"
  using factors_iff_positive_score[OF assess_ex80] assess_ex80 by simp

section \<open>Properties of the aggregator\<close>





section \<open>Properties of the enrichment engine\<close>

lemmas parse_defs = py_int_def int_strip_def is_int_space_def first_segment_def digit_value_def
  digit_chars_def

lemmas fallback_defs = apply_fallback_data_def country_guess_def get_country_coordinates_def
  coordinates_def truthy_str_def truthy_float_def

lemma py_int_10: "py_int (first_segment ''10.0.0.1'') = Some 10"
  by (simp add: parse_defs)

subsection \<open>What is kept\<close>

lemma merge_keeps:
  "truthy_str (country node) \<Longrightarrow> country (merge_ip_data node d) = country node"
  "truthy_float (latitude node) \<Longrightarrow> latitude (merge_ip_data node d) = latitude node"
  "truthy_float (longitude node) \<Longrightarrow> longitude (merge_ip_data node d) = longitude node"
  by (simp_all add: merge_ip_data_def or_str_def or_float_def)

lemma fallback_keeps_country:
  "truthy_str (country node) \<Longrightarrow> country (apply_fallback_data node) = country node"
  by (simp add: apply_fallback_data_def Let_def split: option.splits)

lemma fallback_keeps_coords:
  "truthy_float (latitude node) \<Longrightarrow> truthy_float (longitude node) \<Longrightarrow>
   latitude (apply_fallback_data node) = latitude node \<and>
   longitude (apply_fallback_data node) = longitude node"
  by (simp add: apply_fallback_data_def Let_def split: option.splits)

text \<open>
  Enrichment hands back the node itself, the node after the fallback heuristic, or the
  node merged with a provider's answer.
\<close>

lemma enrich_node_cases:
  "fst (enrich_node net a node use_api) = node \<or>
   fst (enrich_node net a node use_api) = apply_fallback_data node \<or>
   (\<exists>d. fst (enrich_node net a node use_api) = merge_ip_data node d)"
  by (auto simp: enrich_node_def Let_def split: prod.splits option.splits)

lemma enrich_keeps_country:
  "truthy_str (country node) \<Longrightarrow> country (fst (enrich_node net a node use_api)) = country node"
  using enrich_node_cases[of net a node use_api]
  by (auto simp: merge_keeps fallback_keeps_country)

lemma enrich_keeps_coords:
  assumes "truthy_float (latitude node)" "truthy_float (longitude node)"
  shows "latitude (fst (enrich_node net a node use_api)) = latitude node \<and>
         longitude (fst (enrich_node net a node use_api)) = longitude node"
  using enrich_node_cases[of net a node use_api] assms
  by (auto simp: merge_keeps fallback_keeps_coords)

text \<open>
  C1, as the code computes it, with "populated" read as truthy (not \<open>None\<close>, and not the
  empty text or zero). A node whose country, latitude and longitude are all truthy is
  returned unchanged, whatever \<open>use_api\<close> is, and no request is made. In general
  enrichment never replaces a truthy country; it never replaces latitude or longitude
  when both are truthy; and when a provider's answer is merged in, a truthy latitude
  and a truthy longitude are each kept on their own.
\<close>

theorem enrich_keeps_truthy_geo:
  "(has_all_fields node \<longrightarrow> enrich_node net a node use_api = (node, a)) \<and>
   (truthy_str (country node) \<longrightarrow> country (fst (enrich_node net a node use_api)) = country node) \<and>
   (truthy_float (latitude node) \<and> truthy_float (longitude node) \<longrightarrow>
      latitude (fst (enrich_node net a node use_api)) = latitude node \<and>
      longitude (fst (enrich_node net a node use_api)) = longitude node) \<and>
   (truthy_float (latitude node) \<longrightarrow> latitude (merge_ip_data node d) = latitude node) \<and>
   (truthy_float (longitude node) \<longrightarrow> longitude (merge_ip_data node d) = longitude node)"
  using enrich_keeps_country[of node net a use_api] enrich_keeps_coords[of node net a use_api]
  by (simp add: merge_keeps enrich_node_def)

theorem enrich_keeps_truthy_geo_witness:
  "has_all_fields all_there \<and> truthy_str (country all_there) \<and>
   truthy_float (latitude all_there) \<and> truthy_float (longitude all_there) \<and>
   enrich_node (answering amsterdam) (geo_analyzer_init []) all_there True =
     (all_there, geo_analyzer_init [])"
  using enrich_keeps_truthy_geo[of all_there "answering amsterdam" "geo_analyzer_init []" True amsterdam]
  by (simp add: has_all_fields_def all_there_def new_node_def truthy_str_def truthy_float_def)

text \<open>
  C1 as the specification states it fails: a node with country DE, latitude 0.0 and
  longitude 13.4, all three present, is not returned unchanged by the offline path;
  its latitude and its longitude are both replaced by the centroid of DE.
\<close>

theorem enrich_replaces_zero_coordinates:
  "latitude berlin = Some 0 \<and> longitude berlin = Some 13.4 \<and> country berlin = Some ''DE'' \<and>
   fst (enrich_node no_network (geo_analyzer_init []) berlin False) =
     berlin\<lparr>latitude := Some 51.1657, longitude := Some 10.4515\<rparr> \<and>
   longitude (fst (enrich_node no_network (geo_analyzer_init []) berlin False)) \<noteq> longitude berlin"
  by (simp add: enrich_node_def has_all_fields_def berlin_def new_node_def py_int_10 fallback_defs Let_def)

subsection \<open>Presence is truthiness\<close>



subsection \<open>The budget of API calls\<close>

lemma enrich_node_offline:
  "enrich_node net a node False = (if has_all_fields node then node else apply_fallback_data node, a)"
  by (simp add: enrich_node_def)

text \<open>
  Once \<open>api_calls_made\<close> has reached \<open>max_api_calls\<close>, the rest of the list is enriched
  offline and the analyzer makes no further request.
\<close>

lemma enrich_loop_capped:
  "max_api_calls \<le> api_calls_made \<Longrightarrow>
   enrich_loop net use_api max_api_calls nodes (a, out, api_calls_made) =
     (a, out @ map (\<lambda>n. if has_all_fields n then n else apply_fallback_data n) nodes,
      api_calls_made)"
  by (induction nodes arbitrary: out) (simp_all add: enrich_node_offline)

text \<open>
  C9. With \<open>max_api_calls = 0\<close> the batch makes no request (the analyzer, and with it
  \<open>requests_count\<close>, comes back as it was) and every node is either left alone because
  it already has its three geo fields or goes through the offline fallback; the result
  mentions neither \<open>use_api\<close> nor the network.
\<close>

theorem enrich_nodes_zero_budget_offline:
  "enrich_nodes net a nodes use_api 0 =
     (map (\<lambda>n. if has_all_fields n then n else apply_fallback_data n) nodes, a)"
  by (simp add: enrich_nodes_def enrich_loop_capped)

theorem enrich_nodes_zero_budget_offline_witness:
  "enrich_nodes (answering amsterdam) (geo_analyzer_init []) [new_node ''10.0.0.1'', all_there] True 0 =
     ([(new_node ''10.0.0.1'')\<lparr>country := Some ''US'', latitude := Some 37.0902,
                                   longitude := Some (- 95.7129)\<rparr>,
       all_there],
      geo_analyzer_init [])"
  using enrich_nodes_zero_budget_offline[of "answering amsterdam" "geo_analyzer_init []"
      "[new_node ''10.0.0.1'', all_there]" True]
  by (simp add: has_all_fields_def all_there_def new_node_def py_int_10 fallback_defs Let_def)

text \<open>
  C3 at a failing input. Two nodes in 203.0.113.0/24 and 198.51.100.0/24, no token,
  every lookup failing, \<open>use_api\<close> true and \<open>max_api_calls = 1\<close>: the fallback gives both
  nodes the coordinates (0, 0), a latitude the counter does not count, so the second
  node is looked up as well and the batch makes two requests.
\<close>

theorem enrich_nodes_cap_exceeded:
  "requests_count (snd (enrich_nodes no_network (geo_analyzer_init [])
     [new_node ''203.0.113.5'', new_node ''198.51.100.7''] True 1)) = 2"
  by (simp add: enrich_nodes_def enrich_node_def has_all_fields_def new_node_def
      geo_analyzer_init_def no_network_def lookup_ip_free_api_def respect_rate_limit_def
      parse_defs fallback_defs Let_def)

section \<open>Properties of the cleaner\<close>

subsection \<open>Cleaning a cleaned table\<close>

text \<open>
  C5 at a failing input. Both addresses of the table \<open>scoped\<close> are valid and they
  differ (the parser takes the space after \<open>eth0\<close> as part of the scope), so the first
  cleaning keeps both rows; its last step trims the second address onto the first.
  The cleaned table thus holds the same address twice, and cleaning it again drops
  the second row: \<open>clean(clean(table))\<close> differs from \<open>clean(table)\<close>.
\<close>

theorem clean_twice_differs:
  "rectangular scoped \<and>
   clean_dataframe int_reader scoped = Inr scoped_once \<and>
   clean_dataframe int_reader scoped_once = Inr scoped_twice \<and>
   scoped_twice \<noteq> scoped_once"
  by code_simp

subsection \<open>Alternate spellings\<close>

text \<open>
  C8 at a failing input. A table whose address column is spelled \<open>IP\<close> (and whose
  country column is spelled \<open>Country\<close>): the invalid-address drop is skipped because
  there is no column \<open>ip\<close>, and the duplicate drop, which comes before the renaming,
  raises \<open>KeyError\<close>; no cleaned table is returned.
\<close>

theorem clean_alternate_ip_raises: "clean_dataframe num spelled = Inl KeyError"
  by (simp add: clean_dataframe_def and_then_def drop_invalid_ips_def drop_duplicate_ips_def
      labels_def nrows_def spelled_def)

end
